theory Spec2Isabelle
  imports Complex_Main
begin

section \<open>Vectors and colours (pygame primitives used by the sources)\<close>

text \<open>
  Python floats are modelled as the reals: every comparison, assignment of a constant and
  \<open>max\<close> of the sources is taken with exact arithmetic, so rounding, signed zeros,
  infinities and NaN are outside the model.

  \<open>pygame.math.Vector2\<close> is a pair of numbers. The operators the sources use are written
  out; dividing a vector by the number zero raises \<open>ZeroDivisionError\<close> in pygame.
\<close>

type_synonym vec2 = "real \<times> real"

datatype error = ZeroDivisionError | AttributeError

definition vec2_add :: "vec2 \<Rightarrow> vec2 \<Rightarrow> vec2" where
  "vec2_add a b = (fst a + fst b, snd a + snd b)"

definition vec2_sub :: "vec2 \<Rightarrow> vec2 \<Rightarrow> vec2" where
  "vec2_sub a b = (fst a - fst b, snd a - snd b)"

definition vec2_neg :: "vec2 \<Rightarrow> vec2" where
  "vec2_neg a = (- fst a, - snd a)"

definition vec2_mul :: "vec2 \<Rightarrow> real \<Rightarrow> vec2" where
  "vec2_mul a k = (fst a * k, snd a * k)"

definition vec2_truediv :: "vec2 \<Rightarrow> real \<Rightarrow> error + vec2" where
  "vec2_truediv a k = (if k = 0 then Inl ZeroDivisionError else Inr (fst a / k, snd a / k))"

definition magnitude_squared :: "vec2 \<Rightarrow> real" where
  "magnitude_squared a = fst a * fst a + snd a * snd a"

definition magnitude :: "vec2 \<Rightarrow> real" where
  "magnitude a = sqrt (fst a * fst a + snd a * snd a)"

text \<open>\<open>math.radians\<close> and \<open>math.degrees\<close>.\<close>

definition radians :: "real \<Rightarrow> real" where
  "radians d = d * pi / 180"

definition degrees :: "real \<Rightarrow> real" where
  "degrees r = r * 180 / pi"

text \<open>\<open>Vector2.from_polar((r, phi))\<close>: the angle \<open>phi\<close> is in degrees.\<close>

definition from_polar :: "real \<times> real \<Rightarrow> vec2" where
  "from_polar rp = (fst rp * cos (radians (snd rp)), fst rp * sin (radians (snd rp)))"

text \<open>\<open>math.atan2(y, x)\<close>, by quadrant; \<open>atan2(0, 0)\<close> is \<open>0\<close>.\<close>

definition atan2 :: "real \<Rightarrow> real \<Rightarrow> real" where
  "atan2 y x =
     (if 0 < x then arctan (y / x)
      else if x < 0 \<and> 0 \<le> y then arctan (y / x) + pi
      else if x < 0 \<and> y < 0 then arctan (y / x) - pi
      else if 0 < y then pi / 2
      else if y < 0 then - (pi / 2)
      else 0)"

text \<open>\<open>pygame.Color\<close>: red, green, blue and alpha channel, each a byte.\<close>

datatype color = Color nat nat nat nat

definition Color_black :: color where
  "Color_black = Color 0 0 0 255"

definition Color_lime :: color where
  "Color_lime = Color 0 255 0 255"

section \<open>Objects\<close>

text \<open>
  The class hierarchy is a chain of record extensions. \<open>PhysicalObject\<close> and \<open>Disk\<close>
  live in \<open>physics.py\<close>, which is not among the sources: only the attributes that
  \<open>ship.py\<close> and \<open>projectiles.py\<close> read or pass to their constructors appear here.
  The attribute \<open>size\<close> of \<open>Ship\<close> is the field \<open>ship_size\<close>, and the attribute
  \<open>color\<close> of \<open>Bullet\<close> is the field \<open>bullet_color\<close>, since \<open>size\<close> is a constant of
  HOL and \<open>color\<close> is already the field of \<open>Disk\<close>.
\<close>

record physical_object =
  pos :: vec2
  vel :: vec2
  mass :: real

record bullet = physical_object +
  bullet_color :: color

record disk = physical_object +
  radius :: real
  color :: color

record ship = disk +
  ship_size :: real
  angle :: real
  health :: real
  projectiles :: "bullet list"
  gun_cooldown :: real
  has_trophy :: bool
  ammo :: int
  thrust :: real
  rotation_thrust :: real
  move_right :: bool
  move_left :: bool
  move_down :: bool
  move_up :: bool
  fuel_consumption_rate :: real
  fuel_rot_consumption_rate :: real
  damage_indicator_timer :: real

datatype Action = accelerate_to_player | accelerate_randomly | decelerate

text \<open>
  \<open>target_ship\<close> is a Python reference; \<open>None\<close> is the reference that holds no ship, and
  \<open>Some t\<close> gives the target's attributes as they are when the step reads them.
\<close>

record bullet_enemy = ship +
  time_until_next_shot :: real
  action_timer :: real
  current_action :: Action
  target_ship :: "ship option"
  shoot_cooldown :: real

text \<open>
  What \<open>physics.py\<close> does in the methods the sources call is a parameter of the model:
  the mass a \<open>Disk\<close> gets from its density and radius, the \<open>step\<close> of \<open>Disk\<close> and of
  \<open>PhysicalObject\<close>, and \<open>apply_force\<close>. Each method acts on the attributes of its own
  class only, so a method of \<open>Disk\<close> run on a ship changes the ship's \<open>Disk\<close> attributes and
  nothing else.
\<close>

record physics =
  Disk_mass :: "real \<Rightarrow> real \<Rightarrow> real"
  Disk_step :: "real \<Rightarrow> disk \<Rightarrow> disk"
  PhysicalObject_step :: "real \<Rightarrow> physical_object \<Rightarrow> physical_object"
  apply_force :: "vec2 \<Rightarrow> real \<Rightarrow> disk \<Rightarrow> disk"

definition on_physical_object ::
  "(physical_object \<Rightarrow> physical_object) \<Rightarrow> 'a physical_object_scheme \<Rightarrow> 'a physical_object_scheme" where
  "on_physical_object f self =
     (let p = f (physical_object.truncate self)
      in self\<lparr>pos := pos p, vel := vel p, mass := mass p\<rparr>)"

definition on_disk :: "(disk \<Rightarrow> disk) \<Rightarrow> 'a disk_scheme \<Rightarrow> 'a disk_scheme" where
  "on_disk f self =
     (let d = f (disk.truncate self)
      in self\<lparr>pos := pos d, vel := vel d, mass := mass d, radius := radius d, color := color d\<rparr>)"

text \<open>
  Modelled from the spec: the constructor of \<open>PhysicalObject\<close> in \<open>physics.py\<close>, which is
  not among the sources. The spec gives a physical object a position, a velocity and a
  mass, and \<open>Bullet\<close> passes exactly these three.
\<close>

definition PhysicalObject_init :: "vec2 \<Rightarrow> vec2 \<Rightarrow> real \<Rightarrow> physical_object" where
  "PhysicalObject_init p v m = \<lparr>pos = p, vel = v, mass = m\<rparr>"

text \<open>
  Modelled from the spec: the constructor of \<open>Disk\<close> in \<open>physics.py\<close>, which is not among
  the sources. \<open>Ship\<close> passes position, velocity, density, the radius of the disk body and
  the material colour; how the mass follows from density and radius is left to
  \<open>Disk_mass\<close>.
\<close>

definition Disk_init :: "physics \<Rightarrow> vec2 \<Rightarrow> vec2 \<Rightarrow> real \<Rightarrow> real \<Rightarrow> color \<Rightarrow> disk" where
  "Disk_init ph p v density r c =
     \<lparr>pos = p, vel = v, mass = Disk_mass ph density r, radius = r, color = c\<rparr>"

definition BULLET_SPEED :: real where "BULLET_SPEED = 300"
definition HEAD_LENGTH :: real where "HEAD_LENGTH = 3"
definition ENEMY_SHOOT_RANGE :: real where "ENEMY_SHOOT_RANGE = 400"
definition DAMAGE_INDICATOR_TIME :: real where "DAMAGE_INDICATOR_TIME = 0.75"
definition SPEED :: real where "SPEED = 0.5"


section \<open>projectiles.py\<close>

text \<open>\<open>Bullet.__init__\<close>: the parameter \<open>c\<close> is the source's \<open>color\<close>.\<close>

definition Bullet_init :: "vec2 \<Rightarrow> vec2 \<Rightarrow> color \<Rightarrow> bullet" where
  "Bullet_init p v c =
     (let self = PhysicalObject_init p v 1.0
      in \<lparr>pos = pos self, vel = vel self, mass = mass self, bullet_color = Color_black\<rparr>)"

text \<open>\<open>Bullet\<close> inherits \<open>step\<close> from \<open>PhysicalObject\<close>.\<close>

definition Bullet_step :: "physics \<Rightarrow> real \<Rightarrow> bullet \<Rightarrow> bullet" where
  "Bullet_step ph dt self = on_physical_object (PhysicalObject_step ph dt) self"

section \<open>ship.py: Ship\<close>

definition Ship_init :: "physics \<Rightarrow> vec2 \<Rightarrow> vec2 \<Rightarrow> real \<Rightarrow> real \<Rightarrow> color \<Rightarrow> ship" where
  "Ship_init ph p v density sz c =
     (let d = Disk_init ph p v density sz c
      in \<lparr>pos = pos d, vel = vel d, mass = mass d, radius = radius d, color = color d,
          ship_size = sz,
          angle = 270,
          health = 10000,
          projectiles = [],
          gun_cooldown = 0,
          has_trophy = False,
          ammo = 1000,
          thrust = 40 * mass d,
          rotation_thrust = 100,
          move_right = False,
          move_left = False,
          move_down = False,
          move_up = False,
          fuel_consumption_rate = 0,
          fuel_rot_consumption_rate = 0,
          damage_indicator_timer = 0\<rparr>)"

definition get_faced_direction :: "'a ship_scheme \<Rightarrow> vec2" where
  "get_faced_direction self = from_polar (1, angle self)"

definition shoot :: "'a ship_scheme \<Rightarrow> 'a ship_scheme" where
  "shoot self =
     (if gun_cooldown self \<le> 0 \<and> ammo self > 0 then
        let forward = get_faced_direction self;
            bullet_pos = vec2_add (pos self) (vec2_mul (vec2_mul forward (radius self)) HEAD_LENGTH);
            bullet_vel = vec2_add (vel self) (vec2_mul forward BULLET_SPEED);
            self = self\<lparr>projectiles := projectiles self @ [Bullet_init bullet_pos bullet_vel (color self)]\<rparr>;
            self = self\<lparr>gun_cooldown := 0.5\<rparr>;
            self = self\<lparr>ammo := ammo self - 1\<rparr>
        in self
      else self)"

definition suffer_damage :: "real \<Rightarrow> 'a ship_scheme \<Rightarrow> 'a ship_scheme" where
  "suffer_damage damage self =
     (if damage > 0 then
        let self = self\<lparr>health := health self - damage\<rparr>;
            self = self\<lparr>damage_indicator_timer := DAMAGE_INDICATOR_TIME\<rparr>
        in self
      else self)"

text \<open>
  \<open>Ship.step\<close>. The unused local \<open>forward\<close> of the source has no effect and is left out.
\<close>

definition Ship_step :: "physics \<Rightarrow> real \<Rightarrow> 'a ship_scheme \<Rightarrow> 'a ship_scheme" where
  "Ship_step ph dt self =
     (let self = (if move_right self then self\<lparr>pos := vec2_add (pos self) (SPEED, 0)\<rparr> else self);
          self = (if move_left self then self\<lparr>pos := vec2_add (pos self) (- SPEED, 0)\<rparr> else self);
          self = (if move_up self then self\<lparr>pos := vec2_add (pos self) (0, - SPEED)\<rparr> else self);
          self = (if move_down self then self\<lparr>pos := vec2_add (pos self) (0, SPEED)\<rparr> else self);
          self = self\<lparr>damage_indicator_timer := max 0 (damage_indicator_timer self - dt)\<rparr>;
          self = on_disk (Disk_step ph dt) self;
          self = self\<lparr>projectiles := map (Bullet_step ph dt) (projectiles self)\<rparr>;
          self = self\<lparr>gun_cooldown := max 0 (gun_cooldown self - dt)\<rparr>
      in self)"

section \<open>ship.py: BulletEnemy\<close>

text \<open>
  The random numbers of one step are an input: \<open>choices_draw\<close> is the value of
  \<open>random.random()\<close> inside \<open>random.choices\<close>, \<open>uniform_x_draw\<close> and \<open>uniform_y_draw\<close>
  are its values inside the two calls of \<open>random.uniform\<close>; each lies in \<open>[0, 1)\<close>.
\<close>

record draws =
  choices_draw :: real
  uniform_x_draw :: real
  uniform_y_draw :: real

text \<open>\<open>random.uniform(a, b)\<close> is \<open>a + (b - a) * random()\<close>.\<close>

definition uniform :: "real \<Rightarrow> real \<Rightarrow> real \<Rightarrow> real" where
  "uniform a b u = a + (b - a) * u"

text \<open>
  \<open>random.choices(population, weights)\<close> with \<open>k = 1\<close>: the cumulative weights, then
  \<open>population[bisect(cum_weights, random() * total, 0, n - 1)]\<close>. On the sorted list of
  cumulative weights, \<open>bisect\<close> returns the number of entries that are not above the key.
  The checks of \<open>random.choices\<close> on its arguments pass at the one call of the sources
  (three weights, positive total) and are left out.
\<close>

fun accumulate :: "real \<Rightarrow> real list \<Rightarrow> real list" where
  "accumulate s [] = []"
| "accumulate s (w # ws) = (s + w) # accumulate (s + w) ws"

fun bisect :: "real list \<Rightarrow> real \<Rightarrow> nat" where
  "bisect [] k = 0"
| "bisect (c # cs) k = (if k < c then 0 else Suc (bisect cs k))"

definition random_choices :: "'a list \<Rightarrow> real list \<Rightarrow> real \<Rightarrow> 'a" where
  "random_choices population weights u =
     (let n = length population;
          cum_weights = accumulate 0 weights;
          total = last cum_weights;
          hi = n - 1
      in population ! bisect (take hi cum_weights) (u * total))"

definition Action_list :: "Action list" where
  "Action_list = [accelerate_to_player, accelerate_randomly, decelerate]"

definition BulletEnemy_init ::
  "physics \<Rightarrow> vec2 \<Rightarrow> vec2 \<Rightarrow> ship option \<Rightarrow> real \<Rightarrow> color \<Rightarrow> bullet_enemy" where
  "BulletEnemy_init ph p v target cooldown c =
     (let s = Ship_init ph p v 1 8 c;
          s = s\<lparr>thrust := thrust s * 1\<rparr>;
          self = ship.extend s
                   (bullet_enemy.fields 20 6 accelerate_to_player target cooldown);
          self = self\<lparr>health := 10000\<rparr>;
          self = self\<lparr>projectiles := []\<rparr>
      in self)"

text \<open>
  \<open>BulletEnemy.step\<close>. An exception leaves the attributes as they are when it is raised:
  the result \<open>Inl (e, self)\<close> is the exception together with the object at that moment,
  \<open>Inr self\<close> is the object after a step that returns.
\<close>

definition BulletEnemy_step ::
  "physics \<Rightarrow> draws \<Rightarrow> real \<Rightarrow> bullet_enemy \<Rightarrow> error \<times> bullet_enemy + bullet_enemy" where
  "BulletEnemy_step ph rnd dt self =
     (let self = self\<lparr>action_timer := action_timer self - dt\<rparr>;
          self = (if action_timer self \<le> 0 then
                    self\<lparr>current_action :=
                            random_choices Action_list [0.9, 0.05, 0.05] (choices_draw rnd),
                         action_timer := 6\<rparr>
                  else self)
      in case target_ship self of
           None \<Rightarrow> Inl (AttributeError, self)
         | Some target \<Rightarrow>
             let delta_target_ship = vec2_sub (pos target) (pos self);
                 force_direction =
                   (case current_action self of
                      accelerate_to_player \<Rightarrow> delta_target_ship
                    | accelerate_randomly \<Rightarrow>
                        (uniform (- 1) 1 (uniform_x_draw rnd), uniform (- 1) 1 (uniform_y_draw rnd))
                    | decelerate \<Rightarrow> vec2_neg (vel self))
             in (case vec2_truediv (vec2_mul force_direction (thrust self))
                        (magnitude force_direction) of
                   Inl e \<Rightarrow> Inl (e, self)
                 | Inr force \<Rightarrow>
                     (let self = on_disk (apply_force ph force dt) self;
                          self = Ship_step ph dt self;
                          self = self\<lparr>angle := degrees (atan2 (snd (vel self)) (fst (vel self)))\<rparr>;
                          self = self\<lparr>time_until_next_shot := time_until_next_shot self - 1\<rparr>
                      in if magnitude_squared delta_target_ship < ENEMY_SHOOT_RANGE ^ 2
                            \<and> time_until_next_shot self \<le> 0
                         then (let self = shoot self;
                                   self = self\<lparr>time_until_next_shot := shoot_cooldown self\<rparr>
                               in Inr self)
                         else Inr self)))"

text \<open>The object a step leaves behind, whether it returned or raised.\<close>

definition state_after :: "error \<times> 'a + 'a \<Rightarrow> 'a" where
  "state_after r = (case r of Inl (e, s) \<Rightarrow> s | Inr s \<Rightarrow> s)"

text \<open>The exception a step raised, if any.\<close>

definition raised :: "error \<times> 'a + 'a \<Rightarrow> error option" where
  "raised r = (case r of Inl (e, s) \<Rightarrow> Some e | Inr s \<Rightarrow> None)"

section \<open>Properties stated by the specification\<close>

text \<open>The invariants the specification gives for a ship.\<close>

definition ship_inv :: "'a ship_scheme \<Rightarrow> bool" where
  "ship_inv s \<longleftrightarrow>
     0 \<le> gun_cooldown s \<and>
     0 \<le> damage_indicator_timer s \<and> damage_indicator_timer s \<le> DAMAGE_INDICATOR_TIME \<and>
     0 \<le> ammo s"

section \<open>Example objects\<close>

text \<open>
  Modelled from the spec: the collaborator of \<open>physics.py\<close>, which is not among the
  sources. The specification says that the base tick integrates velocity into position
  (\<open>position += velocity * dt\<close>) and that a force is applied for one tick; the mass
  formula and the force law written here are one possible collaborator, used to run the
  model on concrete objects. Every general theorem below holds for an arbitrary
  collaborator \<open>ph\<close>.
\<close>

definition example_physics :: physics where
  "example_physics =
     \<lparr>Disk_mass = (\<lambda>density r. density * r * r),
      Disk_step = (\<lambda>dt d. d\<lparr>pos := vec2_add (pos d) (vec2_mul (vel d) dt)\<rparr>),
      PhysicalObject_step = (\<lambda>dt p. p\<lparr>pos := vec2_add (pos p) (vec2_mul (vel p) dt)\<rparr>),
      apply_force = (\<lambda>force dt d. d\<lparr>vel := vec2_add (vel d) (vec2_mul force (dt / mass d))\<rparr>)\<rparr>"

definition example_ship :: ship where
  "example_ship = Ship_init example_physics (0, 0) (0, 0) 1 8 Color_lime"

text \<open>
  The example ship under way: moving right and up, in the middle of a flash, its gun
  cooling down, and owning one projectile.
\<close>

definition moving_ship :: ship where
  "moving_ship =
     example_ship\<lparr>vel := (2, 4), move_right := True, move_up := True,
                  damage_indicator_timer := 0.75, gun_cooldown := 0.5,
                  projectiles := [Bullet_init (10, 0) (300, 0) Color_lime]\<rparr>"

definition example_target :: ship where
  "example_target = Ship_init example_physics (30, 40) (0, 0) 1 8 Color_lime"

definition far_target :: ship where
  "far_target = Ship_init example_physics (3000, 4000) (0, 0) 1 8 Color_lime"

definition example_enemy :: bullet_enemy where
  "example_enemy =
     BulletEnemy_init example_physics (0, 0) (0, 0) (Some example_target) 0.0125 Color_lime"

definition example_draws :: draws where
  "example_draws = \<lparr>choices_draw = 0.92, uniform_x_draw = 0.25, uniform_y_draw = 0.75\<rparr>"

section \<open>Auxiliary facts\<close>

lemma raised_simps: "raised (Inl (x, s)) = Some x" "raised (Inr s) = None"
  by (simp_all add: raised_def)

lemma state_after_simps: "state_after (Inl (x, s)) = s" "state_after (Inr s) = s"
  by (simp_all add: state_after_def)

subsection \<open>The example objects, field by field\<close>

lemma example_ship_fields:
  "pos example_ship = (0, 0)" "vel example_ship = (0, 0)" "radius example_ship = 8"
  "color example_ship = Color_lime" "angle example_ship = 270" "health example_ship = 10000"
  "projectiles example_ship = []" "gun_cooldown example_ship = 0" "ammo example_ship = 1000"
  "damage_indicator_timer example_ship = 0"
  "move_right example_ship = False" "move_left example_ship = False"
  "move_up example_ship = False" "move_down example_ship = False"
  by (simp_all add: example_ship_def Ship_init_def Disk_init_def Let_def)

lemma example_target_fields:
  "pos example_target = (30, 40)" "pos far_target = (3000, 4000)"
  by (simp_all add: example_target_def far_target_def Ship_init_def Disk_init_def Let_def)

lemma example_enemy_fields:
  "pos example_enemy = (0, 0)" "vel example_enemy = (0, 0)"
  "projectiles example_enemy = []" "gun_cooldown example_enemy = 0" "ammo example_enemy = 1000"
  "damage_indicator_timer example_enemy = 0"
  "time_until_next_shot example_enemy = 20" "action_timer example_enemy = 6"
  "current_action example_enemy = accelerate_to_player"
  "target_ship example_enemy = Some example_target"
  "shoot_cooldown example_enemy = 0.0125"
  by (simp_all add: example_enemy_def BulletEnemy_init_def Ship_init_def Disk_init_def Let_def
        ship.defs bullet_enemy.defs)

subsection \<open>Ship\<close>

lemma shoot_inv: "ship_inv s \<Longrightarrow> ship_inv (shoot s)"
  by (simp add: ship_inv_def shoot_def Let_def)

lemma suffer_damage_inv: "ship_inv s \<Longrightarrow> ship_inv (suffer_damage d s)"
  by (simp add: ship_inv_def suffer_damage_def Let_def DAMAGE_INDICATOR_TIME_def)

lemma shoot_ammo:
  "ammo (shoot s) = (if gun_cooldown s \<le> 0 \<and> 0 < ammo s then ammo s - 1 else ammo s)"
  by (simp add: shoot_def Let_def)

lemma shoot_length_projectiles:
  "length (projectiles (shoot s)) =
     (if gun_cooldown s \<le> 0 \<and> 0 < ammo s then Suc (length (projectiles s))
      else length (projectiles s))"
  by (simp add: shoot_def Let_def)

lemma shoot_without_ammo: "ammo s \<le> 0 \<Longrightarrow> shoot s = s"
  by (simp add: shoot_def)

lemma shoot_funpow_without_ammo: "ammo s \<le> 0 \<Longrightarrow> (shoot ^^ n) s = s"
  by (induction n) (simp_all add: shoot_without_ammo)

lemma on_disk_ship_fields:
  "gun_cooldown (on_disk f s) = gun_cooldown s"
  "damage_indicator_timer (on_disk f s) = damage_indicator_timer s"
  "ammo (on_disk f s) = ammo s"
  "projectiles (on_disk f s) = projectiles s"
  by (simp_all add: on_disk_def Let_def)

lemma Ship_step_gun_cooldown: "gun_cooldown (Ship_step ph dt s) = max 0 (gun_cooldown s - dt)"
  by (simp add: Ship_step_def Let_def on_disk_def)

lemma Ship_step_damage_indicator_timer:
  "damage_indicator_timer (Ship_step ph dt s) = max 0 (damage_indicator_timer s - dt)"
  by (simp add: Ship_step_def Let_def on_disk_def)

lemma Ship_step_ammo: "ammo (Ship_step ph dt s) = ammo s"
  by (simp add: Ship_step_def Let_def on_disk_def)

lemma Ship_step_length_projectiles:
  "length (projectiles (Ship_step ph dt s)) = length (projectiles s)"
  by (simp add: Ship_step_def Let_def on_disk_def)

lemma Ship_step_inv: "0 \<le> dt \<Longrightarrow> ship_inv s \<Longrightarrow> ship_inv (Ship_step ph dt s)"
  by (simp add: ship_inv_def Ship_step_gun_cooldown Ship_step_damage_indicator_timer
        Ship_step_ammo)

subsection \<open>BulletEnemy: what the inherited methods leave alone\<close>

lemma on_disk_enemy_fields:
  "action_timer (on_disk f e) = action_timer e"
  "current_action (on_disk f e) = current_action e"
  "time_until_next_shot (on_disk f e) = time_until_next_shot e"
  "shoot_cooldown (on_disk f e) = shoot_cooldown e"
  by (simp_all add: on_disk_def Let_def)

lemma Ship_step_enemy_fields:
  "action_timer (Ship_step ph dt e) = action_timer e"
  "current_action (Ship_step ph dt e) = current_action e"
  "time_until_next_shot (Ship_step ph dt e) = time_until_next_shot e"
  "shoot_cooldown (Ship_step ph dt e) = shoot_cooldown e"
  by (simp_all add: Ship_step_def on_disk_def Let_def)

lemma shoot_enemy_fields:
  "action_timer (shoot e) = action_timer e"
  "current_action (shoot e) = current_action e"
  "time_until_next_shot (shoot e) = time_until_next_shot e"
  "shoot_cooldown (shoot e) = shoot_cooldown e"
  by (simp_all add: shoot_def Let_def)

lemmas enemy_frame = on_disk_enemy_fields Ship_step_enemy_fields shoot_enemy_fields

subsection \<open>BulletEnemy: one step, attribute by attribute\<close>

lemma step_action_timer:
  "action_timer (state_after (BulletEnemy_step ph rnd dt e)) =
     (if action_timer e - dt \<le> 0 then 6 else action_timer e - dt)"
  unfolding BulletEnemy_step_def state_after_def Let_def
  by (simp add: enemy_frame split: option.splits sum.splits)

lemma step_current_action:
  "current_action (state_after (BulletEnemy_step ph rnd dt e)) =
     (if action_timer e - dt \<le> 0
      then random_choices Action_list [0.9, 0.05, 0.05] (choices_draw rnd)
      else current_action e)"
  unfolding BulletEnemy_step_def state_after_def Let_def
  by (simp add: enemy_frame split: option.splits sum.splits)

lemma step_counter:
  assumes "target_ship e = Some t" and "raised (BulletEnemy_step ph rnd dt e) = None"
  shows "time_until_next_shot (state_after (BulletEnemy_step ph rnd dt e)) =
     (if magnitude_squared (vec2_sub (pos t) (pos e)) < ENEMY_SHOOT_RANGE ^ 2
         \<and> time_until_next_shot e - 1 \<le> 0
      then shoot_cooldown e else time_until_next_shot e - 1)"
  using assms unfolding BulletEnemy_step_def Let_def
  by (simp add: raised_simps state_after_simps enemy_frame split: sum.splits if_splits)

lemma step_ammo:
  assumes "target_ship e = Some t"
  shows "ammo (state_after (BulletEnemy_step ph rnd dt e)) =
     (if raised (BulletEnemy_step ph rnd dt e) = None
         \<and> magnitude_squared (vec2_sub (pos t) (pos e)) < ENEMY_SHOOT_RANGE ^ 2
         \<and> time_until_next_shot e - 1 \<le> 0
         \<and> gun_cooldown e - dt \<le> 0 \<and> 0 < ammo e
      then ammo e - 1 else ammo e)"
  using assms unfolding BulletEnemy_step_def Let_def
  by (simp add: raised_simps state_after_simps enemy_frame shoot_ammo Ship_step_ammo
        Ship_step_gun_cooldown on_disk_ship_fields split: sum.splits)

lemma step_length_projectiles:
  assumes "target_ship e = Some t"
  shows "length (projectiles (state_after (BulletEnemy_step ph rnd dt e))) =
     (if raised (BulletEnemy_step ph rnd dt e) = None
         \<and> magnitude_squared (vec2_sub (pos t) (pos e)) < ENEMY_SHOOT_RANGE ^ 2
         \<and> time_until_next_shot e - 1 \<le> 0
         \<and> gun_cooldown e - dt \<le> 0 \<and> 0 < ammo e
      then Suc (length (projectiles e)) else length (projectiles e))"
  using assms unfolding BulletEnemy_step_def Let_def
  by (simp add: raised_simps state_after_simps enemy_frame shoot_length_projectiles
        Ship_step_ammo Ship_step_length_projectiles Ship_step_gun_cooldown on_disk_ship_fields
        split: sum.splits)

lemma BulletEnemy_step_inv:
  "0 \<le> dt \<Longrightarrow> ship_inv e \<Longrightarrow> ship_inv (state_after (BulletEnemy_step ph rnd dt e))"
  unfolding BulletEnemy_step_def state_after_def Let_def
  apply (simp split: option.splits sum.splits)
  apply (intro conjI impI allI)
  apply (simp_all add: ship_inv_def)
  apply (auto intro!: shoot_inv [unfolded ship_inv_def]
      simp: Ship_step_gun_cooldown Ship_step_damage_indicator_timer Ship_step_ammo
        on_disk_ship_fields)
  done

lemma step_without_target:
  assumes "target_ship e = None"
  shows "BulletEnemy_step ph rnd dt e =
           Inl (AttributeError,
                if action_timer e - dt \<le> 0
                then e\<lparr>action_timer := 6,
                       current_action :=
                         random_choices Action_list [0.9, 0.05, 0.05] (choices_draw rnd)\<rparr>
                else e\<lparr>action_timer := action_timer e - dt\<rparr>)"
  using assms unfolding BulletEnemy_step_def Let_def by simp

lemma step_with_target_no_AttributeError:
  assumes "target_ship e = Some t"
  shows "raised (BulletEnemy_step ph rnd dt e) \<noteq> Some AttributeError"
  using assms unfolding BulletEnemy_step_def Let_def
  by (simp add: raised_simps vec2_truediv_def split: sum.splits)

lemma step_returns_seeking:
  assumes "target_ship e = Some t" and "0 < action_timer e - dt"
    and "current_action e = accelerate_to_player" and "pos t \<noteq> pos e"
  shows "raised (BulletEnemy_step ph rnd dt e) = None"
proof -
  have "magnitude (vec2_sub (pos t) (pos e)) \<noteq> 0"
    using assms(4)
    by (simp add: magnitude_def vec2_sub_def prod_eq_iff real_sqrt_eq_zero_cancel_iff
          sum_squares_eq_zero_iff)
  with assms(1-3) show ?thesis
    unfolding BulletEnemy_step_def Let_def
    by (simp add: raised_simps vec2_truediv_def)
qed

lemma decelerate_at_rest_raises:
  assumes "target_ship e = Some t" and "0 < action_timer e - dt"
    and "current_action e = decelerate" and "vel e = (0, 0)"
  shows "BulletEnemy_step ph rnd dt e =
           Inl (ZeroDivisionError, e\<lparr>action_timer := action_timer e - dt\<rparr>)"
  using assms unfolding BulletEnemy_step_def Let_def
  by (simp add: vec2_truediv_def vec2_neg_def magnitude_def)

lemma far_not_in_range:
  assumes "ENEMY_SHOOT_RANGE < magnitude d"
  shows "\<not> magnitude_squared d < ENEMY_SHOOT_RANGE ^ 2"
proof
  assume "magnitude_squared d < ENEMY_SHOOT_RANGE ^ 2"
  then have "sqrt (magnitude_squared d) < sqrt (ENEMY_SHOOT_RANGE ^ 2)"
    by (rule real_sqrt_less_mono)
  then have "magnitude d < ENEMY_SHOOT_RANGE"
    by (simp add: magnitude_def magnitude_squared_def ENEMY_SHOOT_RANGE_def)
  with assms show False by simp
qed

section \<open>The claims\<close>

subsection \<open>C1: the colour of a spawned projectile\<close>

text \<open>
  Claim C1 says that a projectile spawned by a successful \<open>shoot\<close> has the colour of the
  firing ship. \<open>Ship.shoot\<close> passes the ship's colour to \<open>Bullet\<close>, whose docstring
  calls the parameter the bullet's border and fill colour, but \<open>Bullet.__init__\<close> stores
  \<open>Color("black")\<close> whatever it is given. A freshly built lime ship (cooldown 0, ammo
  1000) that shoots owns exactly one projectile, and that projectile is black.
\<close>

theorem shoot_spawns_black_bullet:
  "color example_ship = Color_lime \<and>
   gun_cooldown example_ship \<le> 0 \<and> 0 < ammo example_ship \<and>
   map bullet_color (projectiles (shoot example_ship)) = [Color_black] \<and>
   Color_black \<noteq> Color_lime"
  by (simp add: example_ship_fields shoot_def Let_def Bullet_init_def Color_black_def
        Color_lime_def)

subsection \<open>C2: decelerating at rest\<close>

text \<open>
  Claim C2 says that an autonomous ship in the state \<open>decelerate\<close> with velocity
  \<open>(0, 0)\<close> applies zero force and raises no division error. In the source the force is
  \<open>force_direction * thrust / force_direction.magnitude()\<close> with no check of the
  magnitude: the example enemy, at rest and decelerating, raises \<open>ZeroDivisionError\<close>
  in its step.
\<close>

theorem decelerate_at_rest_ZeroDivisionError:
  "vel (example_enemy\<lparr>current_action := decelerate\<rparr>) = (0, 0) \<and>
   raised (BulletEnemy_step example_physics example_draws (1 / 60)
             (example_enemy\<lparr>current_action := decelerate\<rparr>)) = Some ZeroDivisionError"
  by (simp add: decelerate_at_rest_raises [where t = example_target] example_enemy_fields
        raised_simps)

subsection \<open>C3: shoot\<close>

text \<open>
  Claim C3: \<open>shoot\<close> changes nothing unless the gun cooldown is at most 0 and there is
  ammunition left. When it succeeds it appends exactly one projectile, at
  \<open>pos + forward * radius * HEAD_LENGTH\<close> with velocity \<open>vel + forward * 300\<close>, sets
  the gun cooldown to 0.5 and takes one from the ammunition. Here \<open>forward\<close> is the unit
  vector of the heading, \<open>(cos a, sin a)\<close> for the angle \<open>a\<close> in degrees, and
  \<open>HEAD_LENGTH\<close> is 3. In particular a ship with ammunition 1 and cooldown 0 at
  \<open>(0, 0)\<close> facing angle 0 gets one projectile at \<open>(radius * HEAD_LENGTH, 0)\<close> with
  velocity \<open>(vel.x + 300, vel.y)\<close>, ammunition 0 and cooldown 0.5.
\<close>

theorem shoot_spec:
  "(\<not> (gun_cooldown s \<le> 0 \<and> 0 < ammo s) \<longrightarrow> shoot s = s) \<and>
   get_faced_direction s = (cos (angle s * pi / 180), sin (angle s * pi / 180)) \<and>
   (gun_cooldown s \<le> 0 \<and> 0 < ammo s \<longrightarrow>
      (\<exists>b. projectiles (shoot s) = projectiles s @ [b] \<and>
           pos b = (fst (pos s) + cos (angle s * pi / 180) * radius s * 3,
                    snd (pos s) + sin (angle s * pi / 180) * radius s * 3) \<and>
           vel b = (fst (vel s) + cos (angle s * pi / 180) * 300,
                    snd (vel s) + sin (angle s * pi / 180) * 300)) \<and>
      gun_cooldown (shoot s) = 0.5 \<and> ammo (shoot s) = ammo s - 1) \<and>
   (ammo s = 1 \<and> gun_cooldown s = 0 \<and> pos s = (0, 0) \<and> angle s = 0 \<longrightarrow>
      (\<exists>b. projectiles (shoot s) = projectiles s @ [b] \<and>
           pos b = (radius s * HEAD_LENGTH, 0) \<and>
           vel b = (fst (vel s) + 300, snd (vel s))) \<and>
      ammo (shoot s) = 0 \<and> gun_cooldown (shoot s) = 0.5) \<and>
   HEAD_LENGTH = 3 \<and> BULLET_SPEED = 300"
  by (simp add: shoot_def Let_def Bullet_init_def PhysicalObject_init_def BULLET_SPEED_def
        HEAD_LENGTH_def get_faced_direction_def from_polar_def radians_def vec2_add_def
        vec2_mul_def)

text \<open>
  The example ship with a running cooldown is left as it is. Turned to angle 0 with one
  round left it fires one projectile from \<open>(24, 0)\<close> at \<open>(300, 0)\<close>; at angle 90,
  moving at \<open>(7, 5)\<close>, it fires from \<open>(0, 24)\<close> at \<open>(7, 305)\<close>; at angle 180, placed
  at \<open>(100, 50)\<close>, it fires from \<open>(76, 50)\<close> at \<open>(-300, 0)\<close>.
\<close>

theorem shoot_spec_witness:
  "shoot (example_ship\<lparr>gun_cooldown := 0.3\<rparr>) = example_ship\<lparr>gun_cooldown := 0.3\<rparr> \<and>
   map pos (projectiles (shoot (example_ship\<lparr>angle := 0, ammo := 1\<rparr>))) = [(24, 0)] \<and>
   map vel (projectiles (shoot (example_ship\<lparr>angle := 0, ammo := 1\<rparr>))) = [(300, 0)] \<and>
   ammo (shoot (example_ship\<lparr>angle := 0, ammo := 1\<rparr>)) = 0 \<and>
   gun_cooldown (shoot (example_ship\<lparr>angle := 0, ammo := 1\<rparr>)) = 0.5 \<and>
   get_faced_direction (example_ship\<lparr>angle := 90\<rparr>) = (0, 1) \<and>
   map pos (projectiles (shoot (example_ship\<lparr>angle := 90, vel := (7, 5)\<rparr>))) = [(0, 24)] \<and>
   map vel (projectiles (shoot (example_ship\<lparr>angle := 90, vel := (7, 5)\<rparr>))) = [(7, 305)] \<and>
   ammo (shoot (example_ship\<lparr>angle := 90, vel := (7, 5)\<rparr>)) = 999 \<and>
   map pos (projectiles (shoot (example_ship\<lparr>angle := 180, pos := (100, 50)\<rparr>)))
     = [(76, 50)] \<and>
   map vel (projectiles (shoot (example_ship\<lparr>angle := 180, pos := (100, 50)\<rparr>)))
     = [(- 300, 0)]"
proof -
  have refused:
    "shoot (example_ship\<lparr>gun_cooldown := 0.3\<rparr>) = example_ship\<lparr>gun_cooldown := 0.3\<rparr>"
    using shoot_spec [of "example_ship\<lparr>gun_cooldown := 0.3\<rparr>", THEN conjunct1]
    by simp
  have zero:
    "map pos (projectiles (shoot (example_ship\<lparr>angle := 0, ammo := 1\<rparr>))) = [(24, 0)] \<and>
     map vel (projectiles (shoot (example_ship\<lparr>angle := 0, ammo := 1\<rparr>))) = [(300, 0)] \<and>
     ammo (shoot (example_ship\<lparr>angle := 0, ammo := 1\<rparr>)) = 0 \<and>
     gun_cooldown (shoot (example_ship\<lparr>angle := 0, ammo := 1\<rparr>)) = 0.5"
    using shoot_spec [of "example_ship\<lparr>angle := 0, ammo := 1\<rparr>"]
    by (auto simp: example_ship_fields HEAD_LENGTH_def)
  have facing: "get_faced_direction (example_ship\<lparr>angle := 90\<rparr>) = (0, 1)"
    using shoot_spec [of "example_ship\<lparr>angle := 90\<rparr>", THEN conjunct2, THEN conjunct1]
    by simp
  have quarter:
    "map pos (projectiles (shoot (example_ship\<lparr>angle := 90, vel := (7, 5)\<rparr>))) = [(0, 24)] \<and>
     map vel (projectiles (shoot (example_ship\<lparr>angle := 90, vel := (7, 5)\<rparr>))) = [(7, 305)] \<and>
     ammo (shoot (example_ship\<lparr>angle := 90, vel := (7, 5)\<rparr>)) = 999"
    using shoot_spec [of "example_ship\<lparr>angle := 90, vel := (7, 5)\<rparr>",
        THEN conjunct2, THEN conjunct2, THEN conjunct1]
    by (auto simp: example_ship_fields)
  have half:
    "map pos (projectiles (shoot (example_ship\<lparr>angle := 180, pos := (100, 50)\<rparr>)))
       = [(76, 50)] \<and>
     map vel (projectiles (shoot (example_ship\<lparr>angle := 180, pos := (100, 50)\<rparr>)))
       = [(- 300, 0)]"
    using shoot_spec [of "example_ship\<lparr>angle := 180, pos := (100, 50)\<rparr>",
        THEN conjunct2, THEN conjunct2, THEN conjunct1]
    by (auto simp: example_ship_fields)
  from refused zero facing quarter half show ?thesis
    by simp
qed

subsection \<open>C4: suffer_damage\<close>

text \<open>
  Claim C4: damage that is zero or negative leaves the health and the damage-flash timer
  unchanged; positive damage is subtracted from the health and sets the timer to exactly
  0.75, whatever the timer was before.
\<close>

theorem suffer_damage_spec:
  "(damage \<le> 0 \<longrightarrow>
      health (suffer_damage damage s) = health s \<and>
      damage_indicator_timer (suffer_damage damage s) = damage_indicator_timer s) \<and>
   (0 < damage \<longrightarrow>
      health (suffer_damage damage s) = health s - damage \<and>
      damage_indicator_timer (suffer_damage damage s) = 0.75)"
  by (simp add: suffer_damage_def Let_def DAMAGE_INDICATOR_TIME_def)

text \<open>Damage \<open>-5\<close> and damage \<open>10\<close> on the example ship in the middle of a flash.\<close>

theorem suffer_damage_spec_witness:
  "health (suffer_damage (- 5) (example_ship\<lparr>damage_indicator_timer := 0.3\<rparr>)) = 10000 \<and>
   damage_indicator_timer (suffer_damage (- 5) (example_ship\<lparr>damage_indicator_timer := 0.3\<rparr>))
     = 0.3 \<and>
   health (suffer_damage 10 (example_ship\<lparr>damage_indicator_timer := 0.3\<rparr>)) = 9990 \<and>
   damage_indicator_timer (suffer_damage 10 (example_ship\<lparr>damage_indicator_timer := 0.3\<rparr>))
     = 0.75"
  using suffer_damage_spec [of "- 5" "example_ship\<lparr>damage_indicator_timer := 0.3\<rparr>"]
    suffer_damage_spec [of 10 "example_ship\<lparr>damage_indicator_timer := 0.3\<rparr>"]
  by (simp add: example_ship_fields)

subsection \<open>C5: the invariants of a ship\<close>

text \<open>
  Claim C5: with \<open>dt \<ge> 0\<close>, \<open>shoot\<close>, \<open>suffer_damage\<close> and the step (of a ship and of
  an autonomous ship) keep the gun cooldown at or above 0, the damage-flash timer between
  0 and 0.75, and the ammunition at or above 0. A step never leaves either timer below 0,
  however large \<open>dt\<close> is, and a ship without ammunition that shoots any number of times
  owns the projectiles it owned before.
\<close>

theorem ship_invariants_preserved:
  "(ship_inv s \<longrightarrow>
      ship_inv (shoot s) \<and> ship_inv (suffer_damage damage s) \<and>
      (0 \<le> dt \<longrightarrow> ship_inv (Ship_step ph dt s))) \<and>
   (ship_inv e \<and> 0 \<le> dt \<longrightarrow> ship_inv (state_after (BulletEnemy_step ph rnd dt e))) \<and>
   0 \<le> gun_cooldown (Ship_step ph dt s) \<and>
   0 \<le> damage_indicator_timer (Ship_step ph dt s) \<and>
   (ammo s = 0 \<longrightarrow> projectiles ((shoot ^^ n) s) = projectiles s)"
  by (simp add: shoot_inv suffer_damage_inv Ship_step_inv BulletEnemy_step_inv
        Ship_step_gun_cooldown Ship_step_damage_indicator_timer shoot_funpow_without_ammo)

text \<open>
  The example ship in the middle of a flash, cooling down and out of ammunition, stepped
  by 1000 seconds, and the example enemy stepped by a sixtieth of a second.
\<close>

theorem ship_invariants_preserved_witness:
  "ship_inv (example_ship\<lparr>gun_cooldown := 0.5, ammo := 0, damage_indicator_timer := 0.75\<rparr>) \<and>
   ship_inv (shoot (example_ship\<lparr>gun_cooldown := 0.5, ammo := 0,
                                  damage_indicator_timer := 0.75\<rparr>)) \<and>
   ship_inv (suffer_damage 10 (example_ship\<lparr>gun_cooldown := 0.5, ammo := 0,
                                              damage_indicator_timer := 0.75\<rparr>)) \<and>
   ship_inv (Ship_step example_physics 1000
               (example_ship\<lparr>gun_cooldown := 0.5, ammo := 0,
                              damage_indicator_timer := 0.75\<rparr>)) \<and>
   ship_inv (state_after (BulletEnemy_step example_physics example_draws (1 / 60)
                            example_enemy)) \<and>
   projectiles ((shoot ^^ 5) (example_ship\<lparr>gun_cooldown := 0.5, ammo := 0,
                                           damage_indicator_timer := 0.75\<rparr>)) = []"
  using ship_invariants_preserved
    [of "example_ship\<lparr>gun_cooldown := 0.5, ammo := 0, damage_indicator_timer := 0.75\<rparr>"
      10 1000 example_physics example_enemy example_draws 5]
    ship_invariants_preserved
    [of example_ship 10 "1 / 60" example_physics example_enemy example_draws 5]
  by (simp add: ship_inv_def example_ship_fields example_enemy_fields DAMAGE_INDICATOR_TIME_def)

subsection \<open>C6: the order of a tick\<close>

text \<open>
  Claim C6: a tick applies the movement flags as fixed nudges of 0.5 units per call (right
  \<open>+x\<close>, left \<open>-x\<close>, up \<open>-y\<close>, down \<open>+y\<close>), whatever \<open>dt\<close> is, and runs its
  sub-steps in this order: nudges, decay of the flash timer, base physics step, tick of
  every owned projectile, decay of the gun cooldown. Attribute by attribute: the body
  after the tick is the base step of \<open>physics.py\<close> run on the body at the nudged
  position, so the nudges come first and do not depend on \<open>dt\<close>; the flash timer and the
  gun cooldown have each gone down by \<open>dt\<close>, not below 0; every owned projectile has
  made one step of its own; the remaining attributes are as before. The other sub-steps
  write attributes that no other sub-step reads, so their place in the order shows in
  nothing but this result.
\<close>

theorem Ship_step_order:
  "(let nudged = (fst (pos s) + (if move_right s then 0.5 else 0)
                             - (if move_left s then 0.5 else 0),
                  snd (pos s) - (if move_up s then 0.5 else 0)
                             + (if move_down s then 0.5 else 0));
        d = Disk_step ph dt
              \<lparr>pos = nudged, vel = vel s, mass = mass s, radius = radius s, color = color s\<rparr>
    in pos (Ship_step ph dt s) = pos d \<and>
       vel (Ship_step ph dt s) = vel d \<and>
       mass (Ship_step ph dt s) = mass d \<and>
       radius (Ship_step ph dt s) = radius d \<and>
       color (Ship_step ph dt s) = color d) \<and>
   damage_indicator_timer (Ship_step ph dt s) = max 0 (damage_indicator_timer s - dt) \<and>
   gun_cooldown (Ship_step ph dt s) = max 0 (gun_cooldown s - dt) \<and>
   projectiles (Ship_step ph dt s) =
     map (\<lambda>b. let p = PhysicalObject_step ph dt \<lparr>pos = pos b, vel = vel b, mass = mass b\<rparr>
              in \<lparr>pos = pos p, vel = vel p, mass = mass p, bullet_color = bullet_color b\<rparr>)
       (projectiles s) \<and>
   ammo (Ship_step ph dt s) = ammo s \<and>
   health (Ship_step ph dt s) = health s \<and>
   angle (Ship_step ph dt s) = angle s \<and>
   move_right (Ship_step ph dt s) = move_right s \<and>
   move_left (Ship_step ph dt s) = move_left s \<and>
   move_up (Ship_step ph dt s) = move_up s \<and>
   move_down (Ship_step ph dt s) = move_down s"
  by (simp add: Ship_step_def Let_def vec2_add_def SPEED_def on_disk_def disk.defs
        Bullet_step_def on_physical_object_def physical_object.defs)

text \<open>
  The ship under way, stepped by a quarter of a second with a base step that integrates
  velocity into position: nudged to \<open>(0.5, -0.5)\<close> and then moved by \<open>(0.5, 1)\<close>,
  its timers down to 0.5 and 0.25, its projectile moved from \<open>(10, 0)\<close> to
  \<open>(85, 0)\<close>.
\<close>

theorem Ship_step_order_witness:
  "pos (Ship_step example_physics (1 / 4) moving_ship) = (1, 1 / 2) \<and>
   vel (Ship_step example_physics (1 / 4) moving_ship) = (2, 4) \<and>
   damage_indicator_timer (Ship_step example_physics (1 / 4) moving_ship) = 1 / 2 \<and>
   gun_cooldown (Ship_step example_physics (1 / 4) moving_ship) = 1 / 4 \<and>
   map pos (projectiles (Ship_step example_physics (1 / 4) moving_ship)) = [(85, 0)] \<and>
   map vel (projectiles (Ship_step example_physics (1 / 4) moving_ship)) = [(300, 0)] \<and>
   map bullet_color (projectiles (Ship_step example_physics (1 / 4) moving_ship))
     = [Color_black]"
  using Ship_step_order [of moving_ship example_physics "1 / 4"]
  by (simp add: moving_ship_def example_ship_fields example_physics_def Let_def
        Bullet_init_def PhysicalObject_init_def vec2_add_def vec2_mul_def)

subsection \<open>C7: the action timer and the re-roll\<close>

text \<open>
  Claim C7: each step takes \<open>dt\<close> from the action timer; the current action is re-rolled
  only when the timer drops to 0 or below, the re-roll draws among exactly
  \<open>accelerate_to_player\<close>, \<open>accelerate_randomly\<close> and \<open>decelerate\<close> with weights
  0.9, 0.05 and 0.05, and the timer is then set to 6; the current action is always one of
  the three. The weights show as the draws \<open>u\<close> that select each action: below 0.9, from
  0.9 to below 0.95, and from 0.95 on.
\<close>

theorem action_reroll:
  "(0 < action_timer e - dt \<longrightarrow>
      action_timer (state_after (BulletEnemy_step ph rnd dt e)) = action_timer e - dt \<and>
      current_action (state_after (BulletEnemy_step ph rnd dt e)) = current_action e) \<and>
   (action_timer e - dt \<le> 0 \<longrightarrow>
      action_timer (state_after (BulletEnemy_step ph rnd dt e)) = 6 \<and>
      current_action (state_after (BulletEnemy_step ph rnd dt e)) =
        random_choices Action_list [0.9, 0.05, 0.05] (choices_draw rnd)) \<and>
   (random_choices Action_list [0.9, 0.05, 0.05] u = accelerate_to_player \<longleftrightarrow> u < 0.9) \<and>
   (random_choices Action_list [0.9, 0.05, 0.05] u = accelerate_randomly
      \<longleftrightarrow> 0.9 \<le> u \<and> u < 0.95) \<and>
   (random_choices Action_list [0.9, 0.05, 0.05] u = decelerate \<longleftrightarrow> 0.95 \<le> u) \<and>
   current_action (state_after (BulletEnemy_step ph rnd dt e))
     \<in> {accelerate_to_player, accelerate_randomly, decelerate}"
proof -
  let ?e' = "state_after (BulletEnemy_step ph rnd dt e)"
  have keep: "0 < action_timer e - dt \<longrightarrow>
      action_timer ?e' = action_timer e - dt \<and> current_action ?e' = current_action e"
    by (simp add: step_action_timer step_current_action)
  have reroll: "action_timer e - dt \<le> 0 \<longrightarrow>
      action_timer ?e' = 6 \<and>
      current_action ?e' = random_choices Action_list [0.9, 0.05, 0.05] (choices_draw rnd)"
    by (simp add: step_action_timer step_current_action)
  have w1: "random_choices Action_list [0.9, 0.05, 0.05] u = accelerate_to_player
              \<longleftrightarrow> u < 0.9"
    by (simp add: random_choices_def Action_list_def)
  have w2: "random_choices Action_list [0.9, 0.05, 0.05] u = accelerate_randomly
              \<longleftrightarrow> 0.9 \<le> u \<and> u < 0.95"
    by (simp add: random_choices_def Action_list_def)
  have w3: "random_choices Action_list [0.9, 0.05, 0.05] u = decelerate \<longleftrightarrow> 0.95 \<le> u"
    by (simp add: random_choices_def Action_list_def)
  have closed: "current_action ?e' \<in> {accelerate_to_player, accelerate_randomly, decelerate}"
    by (cases "current_action ?e'") simp_all
  from keep reroll w1 w2 w3 closed show ?thesis
    by (intro conjI)
qed

text \<open>
  The example enemy, timer at 6, keeps seeking after a sixtieth of a second; with the
  timer at 0.01 the same step re-rolls, and the draw 0.92 selects \<open>accelerate_randomly\<close>.
\<close>

theorem action_reroll_witness:
  "action_timer (state_after (BulletEnemy_step example_physics example_draws (1 / 60)
      example_enemy)) = 6 - 1 / 60 \<and>
   current_action (state_after (BulletEnemy_step example_physics example_draws (1 / 60)
      example_enemy)) = accelerate_to_player \<and>
   action_timer (state_after (BulletEnemy_step example_physics example_draws (1 / 60)
      (example_enemy\<lparr>action_timer := 0.01\<rparr>))) = 6 \<and>
   current_action (state_after (BulletEnemy_step example_physics example_draws (1 / 60)
      (example_enemy\<lparr>action_timer := 0.01\<rparr>))) = accelerate_randomly"
  using action_reroll [of example_enemy "1 / 60" example_physics example_draws "0.92"]
    action_reroll [of "example_enemy\<lparr>action_timer := 0.01\<rparr>" "1 / 60" example_physics
      example_draws "0.92"]
  by (simp add: example_enemy_fields example_draws_def)

subsection \<open>C8: the range gate and the frame counter\<close>

text \<open>
  Claim C8: during a step \<open>shoot\<close> is called only when the squared distance to the target
  is below \<open>400\<^sup>2\<close> and the frame counter, which goes down by 1 each tick and not by
  \<open>dt\<close>, is at most 0; a ship more than 400 units from its target never fires, whatever
  the counter; after firing the counter is set to \<open>shoot_cooldown\<close>. The distance is the
  one at the start of the step, where the source computes \<open>delta_target_ship\<close>. A shot
  shows as one more projectile and one round less.
\<close>

theorem shoot_range_gate:
  assumes "target_ship e = Some t"
  shows
    "(\<not> (magnitude_squared (vec2_sub (pos t) (pos e)) < 400 ^ 2
          \<and> time_until_next_shot e - 1 \<le> 0) \<longrightarrow>
        length (projectiles (state_after (BulletEnemy_step ph rnd dt e)))
          = length (projectiles e) \<and>
        ammo (state_after (BulletEnemy_step ph rnd dt e)) = ammo e) \<and>
     (400 < magnitude (vec2_sub (pos t) (pos e)) \<longrightarrow>
        length (projectiles (state_after (BulletEnemy_step ph rnd dt e)))
          = length (projectiles e) \<and>
        ammo (state_after (BulletEnemy_step ph rnd dt e)) = ammo e) \<and>
     (raised (BulletEnemy_step ph rnd dt e) = None \<and>
      \<not> (magnitude_squared (vec2_sub (pos t) (pos e)) < 400 ^ 2
          \<and> time_until_next_shot e - 1 \<le> 0) \<longrightarrow>
        time_until_next_shot (state_after (BulletEnemy_step ph rnd dt e))
          = time_until_next_shot e - 1) \<and>
     (length (projectiles (state_after (BulletEnemy_step ph rnd dt e)))
        = Suc (length (projectiles e)) \<longrightarrow>
        time_until_next_shot (state_after (BulletEnemy_step ph rnd dt e)) = shoot_cooldown e) \<and>
     (raised (BulletEnemy_step ph rnd dt e) = None \<and>
      magnitude_squared (vec2_sub (pos t) (pos e)) < 400 ^ 2 \<and>
      time_until_next_shot e - 1 \<le> 0 \<and> gun_cooldown e - dt \<le> 0 \<and> 0 < ammo e \<longrightarrow>
        length (projectiles (state_after (BulletEnemy_step ph rnd dt e)))
          = Suc (length (projectiles e)) \<and>
        ammo (state_after (BulletEnemy_step ph rnd dt e)) = ammo e - 1)"
proof -
  let ?r = "BulletEnemy_step ph rnd dt e"
  let ?d = "vec2_sub (pos t) (pos e)"
  have range: "ENEMY_SHOOT_RANGE ^ 2 = (400 ^ 2 :: real)"
    by (simp add: ENEMY_SHOOT_RANGE_def)
  have len: "length (projectiles (state_after ?r)) =
     (if raised ?r = None \<and> magnitude_squared ?d < 400 ^ 2 \<and> time_until_next_shot e - 1 \<le> 0
         \<and> gun_cooldown e - dt \<le> 0 \<and> 0 < ammo e
      then Suc (length (projectiles e)) else length (projectiles e))"
    using step_length_projectiles [OF assms, of ph rnd dt] unfolding range .
  have am: "ammo (state_after ?r) =
     (if raised ?r = None \<and> magnitude_squared ?d < 400 ^ 2 \<and> time_until_next_shot e - 1 \<le> 0
         \<and> gun_cooldown e - dt \<le> 0 \<and> 0 < ammo e
      then ammo e - 1 else ammo e)"
    using step_ammo [OF assms, of ph rnd dt] unfolding range .
  have cnt: "raised ?r = None \<Longrightarrow> time_until_next_shot (state_after ?r) =
     (if magnitude_squared ?d < 400 ^ 2 \<and> time_until_next_shot e - 1 \<le> 0
      then shoot_cooldown e else time_until_next_shot e - 1)"
    using step_counter [OF assms, of ph rnd dt] unfolding range .
  have far: "400 < magnitude ?d \<Longrightarrow> \<not> magnitude_squared ?d < 400 ^ 2"
    using far_not_in_range [of ?d] unfolding range by (simp add: ENEMY_SHOOT_RANGE_def)
  have c1: "\<not> (magnitude_squared ?d < 400 ^ 2 \<and> time_until_next_shot e - 1 \<le> 0) \<longrightarrow>
        length (projectiles (state_after ?r)) = length (projectiles e) \<and>
        ammo (state_after ?r) = ammo e"
    unfolding len am by auto
  have c2: "400 < magnitude ?d \<longrightarrow>
        length (projectiles (state_after ?r)) = length (projectiles e) \<and>
        ammo (state_after ?r) = ammo e"
    unfolding len am using far by auto
  have c3: "raised ?r = None \<and>
      \<not> (magnitude_squared ?d < 400 ^ 2 \<and> time_until_next_shot e - 1 \<le> 0) \<longrightarrow>
        time_until_next_shot (state_after ?r) = time_until_next_shot e - 1"
    using cnt by auto
  have c4: "length (projectiles (state_after ?r)) = Suc (length (projectiles e)) \<longrightarrow>
        time_until_next_shot (state_after ?r) = shoot_cooldown e"
  proof
    assume fired: "length (projectiles (state_after ?r)) = Suc (length (projectiles e))"
    then have "raised ?r = None \<and> magnitude_squared ?d < 400 ^ 2
        \<and> time_until_next_shot e - 1 \<le> 0"
      unfolding len by (auto split: if_splits)
    then show "time_until_next_shot (state_after ?r) = shoot_cooldown e"
      using cnt by simp
  qed
  have c5: "raised ?r = None \<and> magnitude_squared ?d < 400 ^ 2 \<and>
      time_until_next_shot e - 1 \<le> 0 \<and> gun_cooldown e - dt \<le> 0 \<and> 0 < ammo e \<longrightarrow>
        length (projectiles (state_after ?r)) = Suc (length (projectiles e)) \<and>
        ammo (state_after ?r) = ammo e - 1"
    unfolding len am by simp
  from c1 c2 c3 c4 c5 show ?thesis
    by (intro conjI)
qed

text \<open>
  The example enemy with its counter at 1 and the target 50 units away fires and sets the
  counter to 0.0125; with the counter at 20 it does not fire and the counter is 19; with
  the counter at 1 and the target 5000 units away it does not fire.
\<close>

theorem shoot_range_gate_witness:
  "length (projectiles (state_after (BulletEnemy_step example_physics example_draws (1 / 60)
      (example_enemy\<lparr>time_until_next_shot := 1\<rparr>)))) = 1 \<and>
   ammo (state_after (BulletEnemy_step example_physics example_draws (1 / 60)
      (example_enemy\<lparr>time_until_next_shot := 1\<rparr>))) = 999 \<and>
   time_until_next_shot (state_after (BulletEnemy_step example_physics example_draws (1 / 60)
      (example_enemy\<lparr>time_until_next_shot := 1\<rparr>))) = 0.0125 \<and>
   length (projectiles (state_after (BulletEnemy_step example_physics example_draws (1 / 60)
      example_enemy))) = 0 \<and>
   time_until_next_shot (state_after (BulletEnemy_step example_physics example_draws (1 / 60)
      example_enemy)) = 19 \<and>
   400 < magnitude (vec2_sub (pos far_target) (pos example_enemy)) \<and>
   length (projectiles (state_after (BulletEnemy_step example_physics example_draws (1 / 60)
      (example_enemy\<lparr>time_until_next_shot := 1, target_ship := Some far_target\<rparr>)))) = 0 \<and>
   ammo (state_after (BulletEnemy_step example_physics example_draws (1 / 60)
      (example_enemy\<lparr>time_until_next_shot := 1, target_ship := Some far_target\<rparr>))) = 1000"
proof -
  have near: "raised (BulletEnemy_step example_physics example_draws (1 / 60)
      (example_enemy\<lparr>time_until_next_shot := 1\<rparr>)) = None"
    by (rule step_returns_seeking [where t = example_target])
      (simp_all add: example_enemy_fields example_target_fields)
  have plain: "raised (BulletEnemy_step example_physics example_draws (1 / 60)
      example_enemy) = None"
    by (rule step_returns_seeking [where t = example_target])
      (simp_all add: example_enemy_fields example_target_fields)
  have dist: "magnitude (vec2_sub (pos far_target) (pos example_enemy)) = 5000"
  proof -
    have "(3000 * 3000 + 4000 * 4000 :: real) = 5000\<^sup>2" by simp
    then show ?thesis
      by (simp only: magnitude_def vec2_sub_def example_target_fields example_enemy_fields
            fst_conv snd_conv diff_zero real_sqrt_abs abs_numeral)
  qed
  show ?thesis
    using shoot_range_gate
      [of "example_enemy\<lparr>time_until_next_shot := 1\<rparr>" example_target example_physics
        example_draws "1 / 60"]
      shoot_range_gate [of example_enemy example_target example_physics example_draws "1 / 60"]
      shoot_range_gate
      [of "example_enemy\<lparr>time_until_next_shot := 1, target_ship := Some far_target\<rparr>"
        far_target example_physics example_draws "1 / 60"]
      near plain dist
    by (simp add: example_enemy_fields example_target_fields magnitude_squared_def
          vec2_sub_def)
qed

subsection \<open>C9: a missing target\<close>

text \<open>
  Claim C9 says that with a missing target a step applies no force and does not fail.
  The source holds the target as a plain reference of type \<open>Ship\<close> and reads
  \<open>self.target_ship.pos\<close> on every tick, in every action state: with the reference
  \<open>None\<close> the step of the example enemy raises \<open>AttributeError\<close>.
\<close>

theorem missing_target_raises:
  "raised (BulletEnemy_step example_physics example_draws (1 / 60)
             (example_enemy\<lparr>target_ship := None\<rparr>)) = Some AttributeError"
  by (simp add: step_without_target raised_simps)

text \<open>
  Claim C9 as amended: the target is a required reference. With a missing target a step
  applies no force for that tick (position and velocity stay as they were) and fails with
  \<open>AttributeError\<close>; with a target present a step never fails with \<open>AttributeError\<close>.
\<close>

theorem missing_target_amended:
  "(target_ship e = None \<longrightarrow>
      raised (BulletEnemy_step ph rnd dt e) = Some AttributeError \<and>
      pos (state_after (BulletEnemy_step ph rnd dt e)) = pos e \<and>
      vel (state_after (BulletEnemy_step ph rnd dt e)) = vel e) \<and>
   (target_ship e \<noteq> None \<longrightarrow> raised (BulletEnemy_step ph rnd dt e) \<noteq> Some AttributeError)"
  by (auto simp: step_without_target raised_simps state_after_simps
        step_with_target_no_AttributeError)

text \<open>The example enemy without its target, and with it.\<close>

theorem missing_target_amended_witness:
  "raised (BulletEnemy_step example_physics example_draws (1 / 60)
             (example_enemy\<lparr>target_ship := None\<rparr>)) = Some AttributeError \<and>
   pos (state_after (BulletEnemy_step example_physics example_draws (1 / 60)
             (example_enemy\<lparr>target_ship := None\<rparr>))) = (0, 0) \<and>
   vel (state_after (BulletEnemy_step example_physics example_draws (1 / 60)
             (example_enemy\<lparr>target_ship := None\<rparr>))) = (0, 0) \<and>
   raised (BulletEnemy_step example_physics example_draws (1 / 60) example_enemy)
     \<noteq> Some AttributeError"
  using missing_target_amended
    [of "example_enemy\<lparr>target_ship := None\<rparr>" example_physics example_draws "1 / 60"]
    missing_target_amended [of example_enemy example_physics example_draws "1 / 60"]
  by (simp add: example_enemy_fields)

subsection \<open>C10: the frame counter is reset when the shot is refused\<close>

text \<open>
  Claim C10: in a step that reaches the shooting logic with the target in range (squared
  distance below \<open>400\<^sup>2\<close>) and the decremented frame counter at most 0, the counter is
  set to \<open>shoot_cooldown\<close> also when the inner \<open>shoot\<close> is refused because the gun is
  still cooling down or the ammunition is used up: then no projectile is added and no round
  is spent, and the counter is reset all the same.
\<close>

theorem frame_counter_reset_when_refused:
  assumes "target_ship e = Some t"
    and "magnitude_squared (vec2_sub (pos t) (pos e)) < 400 ^ 2"
    and "time_until_next_shot e - 1 \<le> 0"
    and "raised (BulletEnemy_step ph rnd dt e) = None"
  shows
    "time_until_next_shot (state_after (BulletEnemy_step ph rnd dt e)) = shoot_cooldown e \<and>
     (0 < gun_cooldown e - dt \<or> ammo e \<le> 0 \<longrightarrow>
        length (projectiles (state_after (BulletEnemy_step ph rnd dt e)))
          = length (projectiles e) \<and>
        ammo (state_after (BulletEnemy_step ph rnd dt e)) = ammo e)"
proof -
  have range: "magnitude_squared (vec2_sub (pos t) (pos e)) < ENEMY_SHOOT_RANGE ^ 2"
    using assms(2) by (simp add: ENEMY_SHOOT_RANGE_def)
  have "time_until_next_shot (state_after (BulletEnemy_step ph rnd dt e)) = shoot_cooldown e"
    using step_counter [OF assms(1) assms(4)] range assms(3) by simp
  moreover have "0 < gun_cooldown e - dt \<or> ammo e \<le> 0 \<longrightarrow>
        length (projectiles (state_after (BulletEnemy_step ph rnd dt e)))
          = length (projectiles e) \<and>
        ammo (state_after (BulletEnemy_step ph rnd dt e)) = ammo e"
    unfolding step_length_projectiles [OF assms(1)] step_ammo [OF assms(1)] by auto
  ultimately show ?thesis by (rule conjI)
qed

text \<open>
  The example enemy out of ammunition, its counter at 1 and its target 50 units away: no
  projectile is added, and the counter is 0.0125 after the step.
\<close>

theorem frame_counter_reset_when_refused_witness:
  "time_until_next_shot (state_after (BulletEnemy_step example_physics example_draws (1 / 60)
      (example_enemy\<lparr>time_until_next_shot := 1, ammo := 0\<rparr>))) = 0.0125 \<and>
   length (projectiles (state_after (BulletEnemy_step example_physics example_draws (1 / 60)
      (example_enemy\<lparr>time_until_next_shot := 1, ammo := 0\<rparr>)))) = 0 \<and>
   ammo (state_after (BulletEnemy_step example_physics example_draws (1 / 60)
      (example_enemy\<lparr>time_until_next_shot := 1, ammo := 0\<rparr>))) = 0"
proof -
  have returns: "raised (BulletEnemy_step example_physics example_draws (1 / 60)
      (example_enemy\<lparr>time_until_next_shot := 1, ammo := 0\<rparr>)) = None"
    by (rule step_returns_seeking [where t = example_target])
      (simp_all add: example_enemy_fields example_target_fields)
  show ?thesis
    using frame_counter_reset_when_refused
      [of "example_enemy\<lparr>time_until_next_shot := 1, ammo := 0\<rparr>" example_target
        example_physics example_draws "1 / 60"] returns
    by (simp add: example_enemy_fields example_target_fields magnitude_squared_def
          vec2_sub_def)
qed

end
